theory Spec2Isabelle
  imports Main
begin

section \<open>Python values, dictionaries and errors\<close>

text \<open>
  The variant engine of \<^verbatim>\<open>src/cogs/variants.py\<close> works on dynamically typed dictionaries
  (\<^verbatim>\<open>TileFields\<close>, the flags, the per-tile extras). The values that the modelled code paths
  store in them are the Python values below. Floating point attributes (produced by some
  filter handlers that are not modelled here) are left out.
\<close>

datatype pyval =
    PNone
  | PBool bool
  | PInt int
  | PStr string
  | PList "pyval list"
  | PTuple "pyval list"
  | PSlice pyval pyval pyval

text \<open>Python's \<^verbatim>\<open>bool(v)\<close>.\<close>

fun truthy :: "pyval \<Rightarrow> bool" where
  "truthy PNone = False"
| "truthy (PBool b) = b"
| "truthy (PInt i) = (i \<noteq> 0)"
| "truthy (PStr s) = (s \<noteq> [])"
| "truthy (PList xs) = (xs \<noteq> [])"
| "truthy (PTuple xs) = (xs \<noteq> [])"
| "truthy (PSlice start stop step) = True"

type_synonym pydict = "string \<rightharpoonup> pyval"

text \<open>\<^verbatim>\<open>d.get(k)\<close>: the value, or \<^verbatim>\<open>None\<close> when the key is absent.\<close>

definition dict_get :: "pydict \<Rightarrow> string \<Rightarrow> pyval" where
  "dict_get d k = (case d k of None \<Rightarrow> PNone | Some v \<Rightarrow> v)"

text \<open>\<^verbatim>\<open>d.get(k, dflt)\<close>.\<close>

definition dict_get_default :: "pydict \<Rightarrow> string \<Rightarrow> pyval \<Rightarrow> pyval" where
  "dict_get_default d k dflt = (case d k of None \<Rightarrow> dflt | Some v \<Rightarrow> v)"

text \<open>\<^verbatim>\<open>RawTile\<close> (module \<^verbatim>\<open>tile\<close>): identifier, modifier tokens, text flag.\<close>

record RawTile =
  name :: string
  variants :: "string list"
  is_text :: bool

text \<open>
  The first argument of \<^verbatim>\<open>BadTilingVariant\<close> is the tile object in \<^verbatim>\<open>directions\<close> and the
  tile's name in the other handlers.
\<close>

datatype tile_ref = TileObj RawTile | TileName string

datatype error =
    UnknownVariant RawTile string
  | BadTilingVariant tile_ref string pyval
  | TileNotFound RawTile
  | VariantError string
  | IndexError
  | KeyError
  | TypeError
  | ValueError
  | AttributeError

definition ebind :: "error + 'a \<Rightarrow> ('a \<Rightarrow> error + 'b) \<Rightarrow> error + 'b" where
  "ebind m f = (case m of Inl e \<Rightarrow> Inl e | Inr v \<Rightarrow> f v)"

text \<open>\<^verbatim>\<open>xs[i]\<close>: negative indices count from the end, anything else out of range raises.\<close>

definition py_get :: "'a list \<Rightarrow> int \<Rightarrow> error + 'a" where
  "py_get xs i =
     (if 0 \<le> i \<and> i < int (length xs) then Inr (xs ! nat i)
      else if i < 0 \<and> - int (length xs) \<le> i then Inr (xs ! nat (int (length xs) + i))
      else Inl IndexError)"

text \<open>\<^verbatim>\<open>d[k]\<close> on a dictionary: a missing key raises \<^verbatim>\<open>KeyError\<close>.\<close>

definition dict_lookup :: "('k \<rightharpoonup> 'v) \<Rightarrow> 'k \<Rightarrow> error + 'v" where
  "dict_lookup d k = (case d k of None \<Rightarrow> Inl KeyError | Some v \<Rightarrow> Inr v)"

section \<open>Static data that the module imports\<close>

text \<open>
  Modelled from the spec: \<^verbatim>\<open>TileData\<close> (module \<^verbatim>\<open>src.db\<close>) is not among the sources. The spec
  describes it as per-identifier metadata: source mod name, sprite base name, tiling
  category, active and inactive colour indices, text-type classification. The tiling category
  is an integer code; a colour index is a pair of integers.
\<close>

record TileData =
  td_name :: string
  source :: string
  sprite :: string
  tiling :: int
  active_color :: "int \<times> int"
  inactive_color :: "int \<times> int"
  text_type :: int

text \<open>
  The tables of the module \<^verbatim>\<open>constants\<close>, which is not among the sources, are parameters of
  the model. Dictionaries keyed by tokens are association lists (their keys also build the
  handler patterns); \<^verbatim>\<open>TILING_VARIANTS\<close> maps 8-tuples of booleans
  (right, up, left, down, right-up, up-left, left-down, down-right) to variant numbers.
\<close>

type_synonym tiling_key = "bool \<times> bool \<times> bool \<times> bool \<times> bool \<times> bool \<times> bool \<times> bool"

record constants =
  AUTO_TILINGS :: "int list"
  DIRECTION_TILINGS :: "int list"
  ANIMATION_TILINGS :: "int list"
  SLEEP_TILINGS :: "int list"
  DIRECTIONS :: "int list"
  DIRECTION_VARIANTS :: "(string \<times> int) list"
  ANIMATION_VARIANTS :: "(string \<times> int) list"
  SLEEP_VARIANTS :: "(string \<times> int) list"
  TILING_VARIANTS :: "tiling_key \<rightharpoonup> int"

section \<open>Contexts and the adjacency query\<close>

type_synonym RawGrid = "RawTile list list list list"
type_synonym GridIndex = "int \<times> int \<times> int \<times> int"

text \<open>\<^verbatim>\<open>ContextBase\<close>; the \<^verbatim>\<open>bot\<close> handle is not used by the modelled code and is left out.\<close>

record ContextBase =
  tile :: RawTile
  grid :: RawGrid
  index :: GridIndex
  flags :: pydict
  tile_data_cache :: "string \<rightharpoonup> TileData"

record HandlerContext = ContextBase +
  ctx_fields :: pydict
  variant :: string
  groups :: "string option list"
  extras :: pydict

definition tile_data :: "'a ContextBase_scheme \<Rightarrow> TileData option" where
  "tile_data ctx = tile_data_cache ctx (name (tile ctx))"

text \<open>
  \<^verbatim>\<open>ContextBase.is_adjacent\<close>. The \<^verbatim>\<open>print\<close> call evaluates \<^verbatim>\<open>self.grid[d]\<close> first, so a step index
  out of range raises before anything else; what it writes to standard output is not
  modelled. The \<^verbatim>\<open>or\<close> chain is evaluated left to right and stops at the first true operand.
\<close>

definition is_adjacent :: "'a ContextBase_scheme \<Rightarrow> int \<times> int \<times> int \<times> int \<Rightarrow> error + bool" where
  "is_adjacent ctx coordinate =
     (case coordinate of (d, x, y, l) \<Rightarrow>
        let joining_tiles = [name (tile ctx), ''level'', ''border''];
            borders = truthy (dict_get (flags ctx) ''tile_borders'')
        in ebind (py_get (grid ctx) d) (\<lambda>step.
           if x < 0 \<or> y < 0 then Inr borders
           else ebind (py_get step l) (\<lambda>layer.
             if y \<ge> int (length layer) then Inr borders
             else ebind (py_get layer 0) (\<lambda>row0.
               if x \<ge> int (length row0) then Inr borders
               else ebind (py_get layer y) (\<lambda>row.
                    ebind (py_get row x) (\<lambda>t.
                    Inr (name t \<in> set joining_tiles)))))))"

section \<open>The variant codec\<close>

text \<open>\<^verbatim>\<open>split_variant\<close>; Python's \<^verbatim>\<open>divmod\<close> and \<^verbatim>\<open>%\<close> round towards minus infinity, as \<open>div\<close> and \<open>mod\<close> do.\<close>

definition split_variant :: "int option \<Rightarrow> int \<times> int" where
  "split_variant vnum =
     (case vnum of
        None \<Rightarrow> (0, 0)
      | Some v \<Rightarrow>
          (let dir = v div 8; anim = v mod 8
           in if anim = 7 then (((dir + 1) mod 4) * 8, - 1) else (dir * 8, anim)))"

definition join_variant :: "int \<Rightarrow> int \<Rightarrow> int" where
  "join_variant dir anim = (dir + anim) mod 32"

section \<open>The default factory\<close>

text \<open>\<^verbatim>\<open>a and b and rest\<close> on booleans \<open>a\<close>, \<open>b\<close>: \<open>rest\<close> is evaluated only when both hold.\<close>

definition and_then :: "bool \<Rightarrow> bool \<Rightarrow> (error + bool) \<Rightarrow> error + bool" where
  "and_then a b rest = (if a \<and> b then rest else Inr False)"

text \<open>
  The auto-tiling block of \<^verbatim>\<open>default\<close> (the body of
  \<^verbatim>\<open>if tile_data.tiling in constants.AUTO_TILINGS\<close>); it yields \<^verbatim>\<open>(variant, variant_fallback)\<close>.
  The index is unpacked as \<^verbatim>\<open>d, y, t, x\<close>.
\<close>

definition auto_tiling :: "constants \<Rightarrow> 'a ContextBase_scheme \<Rightarrow> error + (int \<times> int)" where
  "auto_tiling c ctx =
     (case index ctx of (d, y, t, x) \<Rightarrow>
        ebind (is_adjacent ctx (d, x + 1, y, t)) (\<lambda>adj_right.
        ebind (is_adjacent ctx (d, x, y - 1, t)) (\<lambda>adj_up.
        ebind (is_adjacent ctx (d, x - 1, y, t)) (\<lambda>adj_left.
        ebind (is_adjacent ctx (d, x, y + 1, t)) (\<lambda>adj_down.
        ebind (dict_lookup (TILING_VARIANTS c)
                 (adj_right, adj_up, adj_left, adj_down, False, False, False, False))
          (\<lambda>variant_fallback.
        ebind (and_then adj_right adj_up (is_adjacent ctx (d, x + 1, y - 1, t))) (\<lambda>adj_rightup.
        ebind (and_then adj_up adj_left (is_adjacent ctx (d, x - 1, y - 1, t))) (\<lambda>adj_upleft.
        ebind (and_then adj_left adj_down (is_adjacent ctx (d, x - 1, y + 1, t))) (\<lambda>adj_leftdown.
        ebind (and_then adj_down adj_right (is_adjacent ctx (d, x + 1, y + 1, t))) (\<lambda>adj_downright.
        Inr (case TILING_VARIANTS c
                    (adj_right, adj_up, adj_left, adj_down,
                     adj_rightup, adj_upleft, adj_leftdown, adj_downright) of
               None \<Rightarrow> variant_fallback
             | Some v \<Rightarrow> v,
             variant_fallback)))))))))))"

definition color_value :: "int \<times> int \<Rightarrow> pyval" where
  "color_value col = PTuple [PInt (fst col), PInt (snd col)]"

text \<open>The function \<^verbatim>\<open>default\<close> registered with \<^verbatim>\<open>@handlers.default\<close>.\<close>

definition default_factory :: "constants \<Rightarrow> 'a ContextBase_scheme \<Rightarrow> error + pydict" where
  "default_factory c ctx =
     (if name (tile ctx) = ''-'' then Inr [''empty'' \<mapsto> PBool True]
      else
        (case tile_data ctx of
           Some td \<Rightarrow>
             ebind (if tiling td \<in> set (AUTO_TILINGS c) then auto_tiling c ctx else Inr (0, 0))
               (\<lambda>(vnum, variant_fallback).
                  let color = (if truthy (dict_get (flags ctx) ''raw_output'') then (0, 3)
                               else active_color td)
                  in Inr [''variant_number'' \<mapsto> PInt vnum,
                          ''variant_fallback'' \<mapsto> PInt variant_fallback,
                          ''color_index'' \<mapsto> color_value color,
                          ''meta_level'' \<mapsto> PInt 0,
                          ''sprite'' \<mapsto> PTuple [PStr (source td), PStr (sprite td)]])
         | None \<Rightarrow>
             if \<not> is_text (tile ctx) then Inl (TileNotFound (tile ctx))
             else Inr [''custom'' \<mapsto> PBool True,
                       ''variant_number'' \<mapsto> PInt 0,
                       ''color_index'' \<mapsto> color_value (0, 3),
                       ''meta_level'' \<mapsto> PInt 0]))"

section \<open>The finalizer\<close>

text \<open>
  Modelled from the spec: \<^verbatim>\<open>FullTile\<close> (module \<^verbatim>\<open>tile\<close>) is not among the sources. The record
  holds the attributes that the finalizer reads and writes, with the types the finalizer
  uses them at, and the remaining attributes as a dictionary.
\<close>

record FullTile =
  ft_name :: string
  variant_number :: int
  meta_level :: int
  custom :: bool
  custom_style :: "string option"
  attributes :: pydict

fun digits_of_nat :: "nat \<Rightarrow> string" where
  "digits_of_nat n =
     (if n < 10 then [char_of (48 + n)]
      else digits_of_nat (n div 10) @ [char_of (48 + n mod 10)])"

declare digits_of_nat.simps [simp del]

text \<open>\<^verbatim>\<open>str(i)\<close> for an integer.\<close>

definition str_of_int :: "int \<Rightarrow> string" where
  "str_of_int i = (if i < 0 then CHR ''-'' # digits_of_nat (nat (- i)) else digits_of_nat (nat i))"

text \<open>\<^verbatim>\<open>n * s\<close> for an integer and a string: nothing when \<open>n\<close> is not positive.\<close>

definition str_repeat :: "int \<Rightarrow> string \<Rightarrow> string" where
  "str_repeat n s = concat (replicate (nat n) s)"

text \<open>
  \<^verbatim>\<open>finalize\<close>. The list stored under \<^verbatim>\<open>extra_names\<close> is shared with the caller, so the flags
  are returned with that list as the finalizer leaves it. A value under \<^verbatim>\<open>extra_names\<close>
  that is not a list raises: item assignment fails on a truthy one, \<^verbatim>\<open>append\<close> is missing
  on a falsy one.
\<close>

definition finalize :: "FullTile \<Rightarrow> pydict \<Rightarrow> error + (FullTile \<times> pydict)" where
  "finalize tle flgs =
     ebind
       (case dict_get flgs ''extra_names'' of
          PNone \<Rightarrow> Inr flgs
        | PList [] \<Rightarrow>
            Inr (flgs(''extra_names'' \<mapsto>
                   PList [PStr (str_repeat (meta_level tle) ''meta_''
                                @ filter (\<lambda>ch. ch \<noteq> CHR ''/'') (ft_name tle)
                                @ ''_'' @ str_of_int (variant_number tle))]))
        | PList (x # xs) \<Rightarrow> Inr (flgs(''extra_names'' \<mapsto> PList (PStr ''render'' # xs)))
        | v \<Rightarrow> if truthy v then Inl TypeError else Inl AttributeError)
       (\<lambda>flgs'.
          Inr (if custom tle \<and> custom_style tle = None then
                 (if length (drop 5 (ft_name tle)) = 2
                     \<and> truthy (dict_get flgs ''default_to_letters'')
                  then tle\<lparr>custom_style := Some ''letter''\<rparr>
                  else tle\<lparr>custom_style := Some ''noun''\<rparr>)
               else tle,
               flgs'))"

section \<open>Handlers\<close>

text \<open>
  A handler returns the partial field set to merge, together with the extras dictionary as
  it leaves it (the \<^verbatim>\<open>auto\<close> handler writes to it).
\<close>

type_synonym HandlerFn = "HandlerContext \<Rightarrow> error + (pydict \<times> pydict)"
type_synonym DefaultFn = "ContextBase \<Rightarrow> error + pydict"
type_synonym FinalizeFn = "FullTile \<Rightarrow> pydict \<Rightarrow> error + (FullTile \<times> pydict)"

text \<open>
  \<^verbatim>\<open>Handler\<close>. The regular-expression library is outside the repository, so the pattern is
  kept as the function \<^verbatim>\<open>variant \<mapsto> re.fullmatch(pattern, variant)\<close>: the captured groups
  on a full match (an unmatched optional group is \<^verbatim>\<open>None\<close>), \<open>None\<close> otherwise.
\<close>

record Handler =
  pattern :: "string \<Rightarrow> string option list option"
  fn :: HandlerFn
  hints :: "(string \<times> string) list"
  group :: string

definition match :: "Handler \<Rightarrow> string \<Rightarrow> string option list option" where
  "match h v = (case pattern h v of Some matches \<Rightarrow> Some matches | None \<Rightarrow> None)"

definition handle :: "Handler \<Rightarrow> HandlerContext \<Rightarrow> error + (pydict \<times> pydict)" where
  "handle h ctx = fn h ctx"

text \<open>
  The helper \<^verbatim>\<open>add\<close>: \<^verbatim>\<open>f + [[dst, var]]\<close> succeeds only when \<^verbatim>\<open>f\<close> is a list; for every other
  value (\<^verbatim>\<open>None\<close> when the key is absent) the \<^verbatim>\<open>TypeError\<close> is caught and a new list started.
\<close>

definition add :: "HandlerContext \<Rightarrow> string \<Rightarrow> pyval \<Rightarrow> pydict" where
  "add ctx dst var =
     (case dict_get (ctx_fields ctx) ''filters'' of
        PList f \<Rightarrow> [''filters'' \<mapsto> PList (f @ [PList [PStr dst, var]])]
      | _ \<Rightarrow> [''filters'' \<mapsto> PList [PList [PStr dst, var]]])"

text \<open>
  Full match of \<^verbatim>\<open>"|".join(keys)\<close> for keys without regular-expression metacharacters: the
  token is one of the keys (the empty pattern of an empty table matches the empty token);
  there are no groups.
\<close>

definition alternatives :: "string list \<Rightarrow> string \<Rightarrow> string option list option" where
  "alternatives keys v = (if v \<in> set keys \<or> (keys = [] \<and> v = []) then Some [] else None)"

text \<open>
  The argument \<^verbatim>\<open>ctx.fields.get("variant_number")\<close> of \<^verbatim>\<open>split_variant\<close>: \<^verbatim>\<open>None\<close>, an integer
  (a boolean is an integer in Python), or a value on which \<^verbatim>\<open>divmod\<close> raises.
\<close>

fun variant_arg :: "pyval \<Rightarrow> error + int option" where
  "variant_arg PNone = Inr None"
| "variant_arg (PInt i) = Inr (Some i)"
| "variant_arg (PBool b) = Inr (Some (if b then 1 else 0))"
| "variant_arg _ = Inl TypeError"

text \<open>The handler \<^verbatim>\<open>directions\<close>.\<close>

definition directions :: "constants \<Rightarrow> HandlerFn" where
  "directions c ctx =
     ebind (dict_lookup (map_of (DIRECTION_VARIANTS c)) (variant ctx)) (\<lambda>dir.
     ebind (variant_arg (dict_get (ctx_fields ctx) ''variant_number'')) (\<lambda>vn.
       case split_variant vn of (_, anim) \<Rightarrow>
         (case tile_data ctx of
            Some td \<Rightarrow>
              if tiling td \<in> set (DIRECTION_TILINGS c) then
                Inr ([''variant_number'' \<mapsto> PInt (join_variant dir anim),
                      ''custom_direction'' \<mapsto> PInt dir], extras ctx)
              else if truthy (dict_get (flags ctx) ''ignore_bad_directions'') then
                Inr (Map.empty, extras ctx)
              else if truthy (dict_get (flags ctx) ''disallow_custom_directions'')
                      \<and> \<not> is_text (tile ctx) then
                Inl (BadTilingVariant (TileObj (tile ctx)) (variant ctx) (PStr ''<missing>''))
              else Inr ([''custom_direction'' \<mapsto> PInt dir], extras ctx)
          | None \<Rightarrow>
              if truthy (dict_get (flags ctx) ''ignore_bad_directions'') then
                Inr (Map.empty, extras ctx)
              else if truthy (dict_get (flags ctx) ''disallow_custom_directions'')
                      \<and> \<not> is_text (tile ctx) then
                Inl (BadTilingVariant (TileObj (tile ctx)) (variant ctx) (PStr ''<missing>''))
              else Inr ([''custom_direction'' \<mapsto> PInt dir], extras ctx))))"

definition directions_handler :: "constants \<Rightarrow> Handler" where
  "directions_handler c =
     \<lparr>pattern = alternatives (map fst (DIRECTION_VARIANTS c)),
      fn = directions c,
      hints = [],
      group = ''Alternate sprites''\<rparr>"

text \<open>Decimal digits, and \<^verbatim>\<open>int(s)\<close> on a string of decimal digits (all that \<^verbatim>\<open>\d{1,2}\<close> lets through).\<close>

definition digit_val :: "char \<Rightarrow> int option" where
  "digit_val ch =
     map_of [(CHR ''0'', 0), (CHR ''1'', 1), (CHR ''2'', 2), (CHR ''3'', 3), (CHR ''4'', 4),
             (CHR ''5'', 5), (CHR ''6'', 6), (CHR ''7'', 7), (CHR ''8'', 8), (CHR ''9'', 9)] ch"

fun digits_value :: "int \<Rightarrow> string \<Rightarrow> int option" where
  "digits_value acc [] = Some acc"
| "digits_value acc (ch # s) =
     (case digit_val ch of None \<Rightarrow> None | Some dg \<Rightarrow> digits_value (10 * acc + dg) s)"

definition py_int :: "string \<Rightarrow> error + int" where
  "py_int s =
     (if s = [] then Inl ValueError
      else case digits_value 0 s of None \<Rightarrow> Inl ValueError | Some i \<Rightarrow> Inr i)"

text \<open>Full match of \<^verbatim>\<open>\d{1,2}\<close>: one or two decimal digits, no groups.\<close>

definition one_or_two_digits :: "string \<Rightarrow> string option list option" where
  "one_or_two_digits v =
     (if (length v = 1 \<or> length v = 2) \<and> (\<forall>ch \<in> set v. digit_val ch \<noteq> None)
      then Some [] else None)"

text \<open>The body of the \<^verbatim>\<open>try\<close> block of \<^verbatim>\<open>raw_variant\<close>.\<close>

definition raw_variant_try :: "constants \<Rightarrow> HandlerContext \<Rightarrow> int \<Rightarrow> int \<Rightarrow> error + pydict" where
  "raw_variant_try c ctx tlg v =
     (let bad = Inl (BadTilingVariant (TileName (name (tile ctx))) (variant ctx) (PInt tlg))
      in if tlg \<in> set (AUTO_TILINGS c) then
           (if v \<ge> 47 then bad else Inr [''variant_number'' \<mapsto> PInt v])
         else
           (case split_variant (Some v) of (dir, anim) \<Rightarrow>
              if dir \<noteq> 0 \<and> (tlg \<notin> set (DIRECTION_TILINGS c) \<or> dir \<notin> set (DIRECTIONS c))
              then bad
              else if anim \<noteq> 0 \<and>
                      (if anim \<in> set (map snd (SLEEP_VARIANTS c))
                       then tlg \<notin> set (SLEEP_TILINGS c)
                       else tlg \<notin> set (ANIMATION_TILINGS c)
                            \<or> anim \<notin> set (map snd (ANIMATION_VARIANTS c)))
              then bad
              else Inr [''variant_number'' \<mapsto> PInt v]))"

text \<open>The handler \<^verbatim>\<open>raw_variant\<close>: \<^verbatim>\<open>except BaseException\<close> catches whatever the block raises.\<close>

definition raw_variant :: "constants \<Rightarrow> HandlerFn" where
  "raw_variant c ctx =
     ebind (py_int (variant ctx)) (\<lambda>v.
       case tile_data ctx of
         None \<Rightarrow> Inl (VariantError ''what tile is that even'')
       | Some td \<Rightarrow>
           (case raw_variant_try c ctx (tiling td) v of
              Inr r \<Rightarrow> Inr (r, extras ctx)
            | Inl _ \<Rightarrow> Inr ([''variant_number'' \<mapsto> PInt (- 1)], extras ctx)))"

definition raw_variant_handler :: "constants \<Rightarrow> Handler" where
  "raw_variant_handler c =
     \<lparr>pattern = one_or_two_digits,
      fn = raw_variant c,
      hints = [(''0'', ''`raw variant number` (e.g. `8`, `17`, `31`)'')],
      group = ''Alternate sprites''\<rparr>"

text \<open>Two of the filter handlers: \<^verbatim>\<open>blank\<close> and \<^verbatim>\<open>flipx\<close>.\<close>

definition blank :: HandlerFn where
  "blank ctx = Inr (add ctx ''blank'' (PBool True), extras ctx)"

definition blank_handler :: Handler where
  "blank_handler =
     \<lparr>pattern = alternatives [''blank''],
      fn = blank,
      hints = [(''blank'', ''`blank` (Makes all of the sprite its palette-defined color.)'')],
      group = ''Filters''\<rparr>"

definition flipx :: HandlerFn where
  "flipx ctx = Inr (add ctx ''flipx'' (PBool True), extras ctx)"

definition flipx_handler :: Handler where
  "flipx_handler =
     \<lparr>pattern = alternatives [''flipx''],
      fn = flipx,
      hints = [(''flipx'', ''`flipx` (Flips sprite horizontally.)'')],
      group = ''Filters''\<rparr>"

text \<open>
  Pieces of the patterns of the next three handlers. \<^verbatim>\<open>s.split(sep)\<close> for a separator of one
  character:
\<close>

fun split_on :: "char \<Rightarrow> string \<Rightarrow> string list" where
  "split_on sep [] = [[]]"
| "split_on sep (ch # s) =
     (if ch = sep then [] # split_on sep s
      else (case split_on sep s of [] \<Rightarrow> [[ch]] | p # ps \<Rightarrow> (ch # p) # ps))"

text \<open>
  Full match of \<^verbatim>\<open>(?:a|b|...)BODY\<close> for literal alternatives: they are tried from left to
  right, and the next one is tried when the body does not match what is left.
\<close>

fun first_alt ::
  "string list \<Rightarrow> (string \<Rightarrow> string option list option) \<Rightarrow> string
     \<Rightarrow> string option list option" where
  "first_alt [] body v = None"
| "first_alt (a # alts) body v =
     (if take (length a) v = a then
        (case body (drop (length a) v) of
           Some grps \<Rightarrow> Some grps
         | None \<Rightarrow> first_alt alts body v)
      else first_alt alts body v)"

definition all_digits :: "string \<Rightarrow> bool" where
  "all_digits s = list_all (\<lambda>ch. digit_val ch \<noteq> None) s"

text \<open>\<^verbatim>\<open>int(s)\<close> on an optional minus sign followed by decimal digits.\<close>

definition py_signed_int :: "string \<Rightarrow> error + int" where
  "py_signed_int s =
     (if s \<noteq> [] \<and> hd s = CHR ''-'' then ebind (py_int (tl s)) (\<lambda>n. Inr (- n))
      else py_int s)"

text \<open>A list comprehension whose body may raise: the first error ends it.\<close>

fun map_err :: "('a \<Rightarrow> error + 'b) \<Rightarrow> 'a list \<Rightarrow> error + 'b list" where
  "map_err f [] = Inr []"
| "map_err f (x # xs) =
     (case f x of
        Inl e \<Rightarrow> Inl e
      | Inr y \<Rightarrow> (case map_err f xs of Inl e \<Rightarrow> Inl e | Inr ys \<Rightarrow> Inr (y # ys)))"

text \<open>
  The handler \<^verbatim>\<open>locksat\<close>, pattern \<^verbatim>\<open>(?:locksat|satlock)(\d+)\<close>: one group, the digits.
  \<^verbatim>\<open>int(None)\<close> raises \<^verbatim>\<open>TypeError\<close>.
\<close>

definition digits_group :: "string \<Rightarrow> string option list option" where
  "digits_group s = (if s \<noteq> [] \<and> all_digits s then Some [Some s] else None)"

definition locksat :: HandlerFn where
  "locksat ctx =
     ebind (py_get (groups ctx) 0) (\<lambda>g.
     ebind (case g of None \<Rightarrow> Inl TypeError | Some s \<Rightarrow> py_signed_int s) (\<lambda>n.
     Inr (add ctx ''locksat'' (PInt n), extras ctx)))"

definition locksat_handler :: Handler where
  "locksat_handler =
     \<lparr>pattern = first_alt [''locksat'', ''satlock''] digits_group,
      fn = locksat,
      hints = [(''locksat'',
         ''`locksat` (Locks the saturation of the sprite's pixels to the specified amount.)'')],
      group = ''Filters''\<rparr>"

text \<open>
  The first handler named \<^verbatim>\<open>colselect\<close>, pattern
  \<^verbatim>\<open>(?:color|col|c)(-?\d+)*(?:\/(-?\d+)*(?:\/(-?\d+)*)?)?\<close>. After the prefix come at most three
  parts separated by slashes; each part is a run of zero or more integers \<^verbatim>\<open>-?\d+\<close> written one
  after the other. A repeated group keeps its last repetition, and the greedy \<^verbatim>\<open>\d+\<close> takes
  all the digits up to the next minus sign, so the group of a part is the text from its
  last minus sign on (the whole part when it has none), and \<^verbatim>\<open>None\<close> for an empty or absent
  part. \<open>signed_run\<close> gives \<open>None\<close> for a part that is no such run.
\<close>

definition signed_run :: "string \<Rightarrow> string option option" where
  "signed_run s =
     (if s = [] then Some None
      else
        (let ps = split_on CHR ''-'' s
         in if list_all all_digits ps \<and> list_all (\<lambda>p. p \<noteq> []) (tl ps)
               \<and> (hd ps \<noteq> [] \<or> 1 < length ps)
            then Some (Some (if length ps = 1 then hd ps else CHR ''-'' # last ps))
            else None))"

definition colselect_slice_body :: "string \<Rightarrow> string option list option" where
  "colselect_slice_body s =
     (let parts = split_on CHR ''/'' s
      in if length parts \<le> 3 \<and> list_all (\<lambda>p. signed_run p \<noteq> None) parts
         then Some (map (\<lambda>i. if i < length parts
                              then (case signed_run (parts ! i) of None \<Rightarrow> None | Some g \<Rightarrow> g)
                              else None)
                      [0, 1, 2])
         else None)"

text \<open>\<^verbatim>\<open>slice(*args)\<close>: one to three arguments.\<close>

fun py_slice :: "pyval list \<Rightarrow> error + pyval" where
  "py_slice [stop] = Inr (PSlice PNone stop PNone)"
| "py_slice [start, stop] = Inr (PSlice start stop PNone)"
| "py_slice [start, stop, step] = Inr (PSlice start stop step)"
| "py_slice _ = Inl TypeError"

definition colselect_slice :: HandlerFn where
  "colselect_slice ctx =
     ebind (map_err (\<lambda>n. case n of
                            None \<Rightarrow> Inr PNone
                          | Some s \<Rightarrow> if length s \<noteq> 0
                                      then ebind (py_signed_int s) (\<lambda>i. Inr (PInt i))
                                      else Inr PNone)
              (groups ctx)) (\<lambda>args.
     ebind (py_slice args) (\<lambda>sl.
     Inr (add ctx ''colselect'' sl, extras ctx)))"

definition colselect_slice_handler :: Handler where
  "colselect_slice_handler =
     \<lparr>pattern = first_alt [''color'', ''col'', ''c''] colselect_slice_body,
      fn = colselect_slice,
      hints = [(''color'',
         ''`color<start>[/<stop>[/<step>]]` (Cuts all but the selected slice of colors, sorted by frequency. Slices work like they do in Python.)'')],
      group = ''Filters''\<rparr>"

text \<open>
  The second handler named \<^verbatim>\<open>colselect\<close>, pattern \<^verbatim>\<open>(?:color|col|c)(-?\d+(?:\+-?\d+)*)\<close>:
  integers separated by plus signs, at least one; the single group is all of it.
  \<^verbatim>\<open>None.split\<close> raises \<^verbatim>\<open>AttributeError\<close>.
\<close>

definition signed_int_text :: "string \<Rightarrow> bool" where
  "signed_int_text p =
     (let ds = (if p \<noteq> [] \<and> hd p = CHR ''-'' then tl p else p)
      in ds \<noteq> [] \<and> all_digits ds)"

definition colselect_list_body :: "string \<Rightarrow> string option list option" where
  "colselect_list_body s =
     (if list_all signed_int_text (split_on CHR ''+'' s) then Some [Some s] else None)"

definition colselect_list :: HandlerFn where
  "colselect_list ctx =
     ebind (py_get (groups ctx) 0) (\<lambda>g.
     ebind (case g of
              None \<Rightarrow> Inl AttributeError
            | Some s \<Rightarrow> map_err py_signed_int (split_on CHR ''+'' s)) (\<lambda>ns.
     Inr (add ctx ''colselect'' (PList (map PInt ns)), extras ctx)))"

definition colselect_list_handler :: Handler where
  "colselect_list_handler =
     \<lparr>pattern = first_alt [''color'', ''col'', ''c''] colselect_list_body,
      fn = colselect_list,
      hints = [(''color'',
         ''`color<n>[+<n>[+<n>...]]` (Cuts all but the specified colors from the image.)'')],
      group = ''Filters''\<rparr>"

section \<open>The resolution engine\<close>

text \<open>
  \<^verbatim>\<open>VariantHandlers\<close>: the ordered rule list, the default factory and the finalizer (which
  \<^verbatim>\<open>setup\<close> registers before any tile is resolved).
\<close>

record VariantHandlers =
  handlers :: "Handler list"
  default_fields :: DefaultFn
  finalizer :: FinalizeFn

text \<open>\<^verbatim>\<open>xs.insert(i, x)\<close>: a negative position counts from the end, and positions are clamped.\<close>

definition py_insert :: "int \<Rightarrow> 'a \<Rightarrow> 'a list \<Rightarrow> 'a list" where
  "py_insert i x xs =
     (let n = int (length xs);
          j = (if i < 0 then max 0 (n + i) else min i n)
      in take (nat j) xs @ [x] @ drop (nat j) xs)"

text \<open>\<^verbatim>\<open>VariantHandlers.handler\<close>: registration of a rule, appended or inserted at \<^verbatim>\<open>order\<close>.\<close>

definition handler :: "VariantHandlers \<Rightarrow> Handler \<Rightarrow> int option \<Rightarrow> VariantHandlers" where
  "handler vh h pos =
     (case pos of
        None \<Rightarrow> vh\<lparr>handlers := handlers vh @ [h]\<rparr>
      | Some i \<Rightarrow> vh\<lparr>handlers := py_insert i h (handlers vh)\<rparr>)"

definition handler_context ::
  "ContextBase \<Rightarrow> pydict \<Rightarrow> string option list \<Rightarrow> string \<Rightarrow> pydict \<Rightarrow> HandlerContext" where
  "handler_context base flds grps v xtr =
     \<lparr>tile = tile base, grid = grid base, index = index base, flags = flags base,
      tile_data_cache = tile_data_cache base,
      ctx_fields = flds, variant = v, groups = grps, extras = xtr\<rparr>"

text \<open>
  The inner loop of \<^verbatim>\<open>handle_tile\<close>, \<^verbatim>\<open>for handler in reversed(self.handlers)\<close>, over the
  already reversed list. The loop has no \<^verbatim>\<open>break\<close>: it goes on after a match. The state is
  the accumulator, the extras and the \<^verbatim>\<open>failed\<close> flag.
\<close>

fun apply_handlers ::
  "Handler list \<Rightarrow> ContextBase \<Rightarrow> string \<Rightarrow> pydict \<Rightarrow> pydict \<Rightarrow> bool
     \<Rightarrow> error + (pydict \<times> pydict \<times> bool)" where
  "apply_handlers [] base v flds xtr failed = Inr (flds, xtr, failed)"
| "apply_handlers (h # hs) base v flds xtr failed =
     (case match h v of
        None \<Rightarrow> apply_handlers hs base v flds xtr failed
      | Some grps \<Rightarrow>
          (case handle h (handler_context base flds grps v xtr) of
             Inl e \<Rightarrow> Inl e
           | Inr (upd, xtr') \<Rightarrow> apply_handlers hs base v (flds ++ upd) xtr' False))"

text \<open>The outer loop of \<^verbatim>\<open>handle_tile\<close>, \<^verbatim>\<open>for variant in tile.variants\<close>.\<close>

fun apply_variants ::
  "VariantHandlers \<Rightarrow> ContextBase \<Rightarrow> string list \<Rightarrow> pydict \<Rightarrow> pydict
     \<Rightarrow> error + (pydict \<times> pydict)" where
  "apply_variants vh base [] flds xtr = Inr (flds, xtr)"
| "apply_variants vh base (v # vs) flds xtr =
     (case apply_handlers (rev (handlers vh)) base v flds xtr True of
        Inl e \<Rightarrow> Inl e
      | Inr (flds', xtr', failed) \<Rightarrow>
          if failed then Inl (UnknownVariant (tile base) v)
          else apply_variants vh base vs flds' xtr')"

text \<open>
  The first part of \<^verbatim>\<open>handle_tile\<close>, up to the end of the loop over the modifier tokens: the
  accumulated fields.
\<close>

definition resolve_fields ::
  "VariantHandlers \<Rightarrow> RawTile \<Rightarrow> RawGrid \<Rightarrow> GridIndex \<Rightarrow> (string \<rightharpoonup> TileData) \<Rightarrow> pydict
     \<Rightarrow> error + pydict" where
  "resolve_fields vh tle grd idx cache flgs =
     (let default_ctx = \<lparr>tile = tle, grid = grd, index = idx, flags = flgs,
                         tile_data_cache = cache\<rparr>
      in ebind (default_fields vh default_ctx) (\<lambda>flds.
         ebind (apply_variants vh default_ctx (variants tle) flds Map.empty) (\<lambda>(flds', xtr).
         Inr flds')))"

text \<open>
  \<^verbatim>\<open>handle_tile\<close>. \<^verbatim>\<open>FullTile.from_tile_fields\<close> is not among the sources and is a parameter.
  The result carries the flags as the finalizer leaves them.
\<close>

definition handle_tile ::
  "VariantHandlers \<Rightarrow> (RawTile \<Rightarrow> pydict \<Rightarrow> error + FullTile)
     \<Rightarrow> RawTile \<Rightarrow> RawGrid \<Rightarrow> GridIndex \<Rightarrow> (string \<rightharpoonup> TileData) \<Rightarrow> pydict
     \<Rightarrow> error + (FullTile \<times> pydict)" where
  "handle_tile vh from_tile_fields tle grd idx cache flgs =
     ebind (resolve_fields vh tle grd idx cache flgs) (\<lambda>flds.
     ebind (from_tile_fields tle flds) (\<lambda>full.
     finalizer vh full flgs))"

text \<open>
  A list comprehension over \<^verbatim>\<open>enumerate(xs)\<close> whose body may raise and may change the shared
  state: elements are visited in order and the first error ends the comprehension.
\<close>

fun enum_map ::
  "(int \<Rightarrow> 'a \<Rightarrow> 's \<Rightarrow> error + ('b \<times> 's)) \<Rightarrow> int \<Rightarrow> 'a list \<Rightarrow> 's \<Rightarrow> error + ('b list \<times> 's)" where
  "enum_map f i [] s = Inr ([], s)"
| "enum_map f i (x # xs) s =
     (case f i x s of
        Inl e \<Rightarrow> Inl e
      | Inr (y, s') \<Rightarrow>
          (case enum_map f (i + 1) xs s' of
             Inl e \<Rightarrow> Inl e
           | Inr (ys, s'') \<Rightarrow> Inr (y # ys, s'')))"

text \<open>The dictionary comprehension \<^verbatim>\<open>{data.name: data ...}\<close>: a later record replaces an earlier one.\<close>

definition cache_of :: "TileData list \<Rightarrow> (string \<rightharpoonup> TileData)" where
  "cache_of ds = map_of (rev (map (\<lambda>data. (td_name data, data)) ds))"

text \<open>
  \<^verbatim>\<open>handle_grid\<close>. The database query \<^verbatim>\<open>self.bot.db.tiles\<close> is a parameter: it receives the set of
  names in the grid and the maximum version.
\<close>

definition handle_grid ::
  "VariantHandlers \<Rightarrow> (RawTile \<Rightarrow> pydict \<Rightarrow> error + FullTile)
     \<Rightarrow> (string set \<Rightarrow> pyval \<Rightarrow> TileData list)
     \<Rightarrow> RawGrid \<Rightarrow> pydict \<Rightarrow> error + (FullTile list list list list \<times> pydict)" where
  "handle_grid vh from_tile_fields db_tiles grd flgs =
     (let cache = cache_of
            (db_tiles (set (map name (concat (concat (concat grd)))))
                      (dict_get_default flgs ''ignore_editor_overrides'' (PInt 1000)))
      in enum_map (\<lambda>d step.
           enum_map (\<lambda>y row.
             enum_map (\<lambda>x stack.
               enum_map (\<lambda>z tle. handle_tile vh from_tile_fields tle grd (d, x, y, z) cache)
                 0 stack)
               0 row)
             0 step)
           0 grd flgs)"

text \<open>
  The part of \<^verbatim>\<open>setup\<close> that builds the engine from the handlers modelled above, registered
  in the order of the source, each without an explicit \<^verbatim>\<open>order\<close>.
\<close>

definition setup_handlers :: "constants \<Rightarrow> VariantHandlers" where
  "setup_handlers c =
     handler
       (handler
          (handler
             (handler
                \<lparr>handlers = [], default_fields = default_factory c, finalizer = finalize\<rparr>
                (directions_handler c) None)
             (raw_variant_handler c) None)
          blank_handler None)
       flipx_handler None"

text \<open>The same with the three filter handlers above, which \<^verbatim>\<open>setup\<close> registers later, in its order.\<close>

definition setup_filters :: "constants \<Rightarrow> VariantHandlers" where
  "setup_filters c =
     handler
       (handler
          (handler (setup_handlers c) locksat_handler None)
          colselect_slice_handler None)
       colselect_list_handler None"

section \<open>Example inputs\<close>

text \<open>Concrete tables, tiles and grids at which the theorems below are instantiated.\<close>

definition ex_constants :: constants where
  "ex_constants =
     \<lparr>AUTO_TILINGS = [1],
      DIRECTION_TILINGS = [2],
      ANIMATION_TILINGS = [3],
      SLEEP_TILINGS = [4],
      DIRECTIONS = [0, 8, 16, 24],
      DIRECTION_VARIANTS = [(''right'', 0), (''up'', 8), (''left'', 16), (''down'', 24)],
      ANIMATION_VARIANTS = [(''a0'', 0), (''a1'', 1), (''a2'', 2), (''a3'', 3)],
      SLEEP_VARIANTS = [(''sleep'', - 1)],
      TILING_VARIANTS =
        [(True, False, False, True, False, False, False, False) \<mapsto> 9,
         (True, False, False, True, False, False, False, True) \<mapsto> 20]\<rparr>"

definition ex_wall :: RawTile where
  "ex_wall = \<lparr>name = ''wall'', variants = [], is_text = False\<rparr>"

definition ex_baba :: RawTile where
  "ex_baba = \<lparr>name = ''baba'', variants = [], is_text = False\<rparr>"

definition ex_level :: RawTile where
  "ex_level = \<lparr>name = ''level'', variants = [], is_text = False\<rparr>"

definition ex_grid :: RawGrid where
  "ex_grid = [[[[ex_wall, ex_wall, ex_baba], [ex_level, ex_wall, ex_baba]]]]"

definition ex_wall_data :: TileData where
  "ex_wall_data =
     \<lparr>td_name = ''wall'', source = ''vanilla'', sprite = ''wall'', tiling = 1,
      active_color = (1, 1), inactive_color = (0, 1), text_type = 0\<rparr>"

definition ex_base :: "pydict \<Rightarrow> ContextBase" where
  "ex_base flgs =
     \<lparr>tile = ex_wall, grid = ex_grid, index = (0, 0, 0, 0), flags = flgs,
      tile_data_cache = [''wall'' \<mapsto> ex_wall_data]\<rparr>"

definition ex_full :: "RawTile \<Rightarrow> pydict \<Rightarrow> error + FullTile" where
  "ex_full tle flds =
     Inr \<lparr>ft_name = name tle, variant_number = 0, meta_level = 0, custom = False,
          custom_style = None, attributes = flds\<rparr>"




definition ex_tile :: "string \<Rightarrow> string list \<Rightarrow> bool \<Rightarrow> RawTile" where
  "ex_tile nm vs txt = \<lparr>name = nm, variants = vs, is_text = txt\<rparr>"

section \<open>The variant codec: properties\<close>

text \<open>
  Claim C3. For every direction in {0, 8, 16, 24} and every animation in {-1, 0, ..., 6},
  splitting the joined variant number gives back the direction and the animation; the
  remainder 7 is read as the sleep frame of the next direction (modulo 4), animation -1.
\<close>

theorem split_join_inverse:
  "dir \<in> {0, 8, 16, 24} \<Longrightarrow> anim \<in> {- 1, 0, 1, 2, 3, 4, 5, 6}
     \<Longrightarrow> split_variant (Some (join_variant dir anim)) = (dir, anim)"
  by (auto simp: split_variant_def join_variant_def)

theorem split_join_inverse_witness:
  "(24::int) \<in> {0, 8, 16, 24} \<and> (- 1::int) \<in> {- 1, 0, 1, 2, 3, 4, 5, 6}
     \<and> join_variant 24 (- 1) = 23
     \<and> split_variant (Some (join_variant 24 (- 1))) = (24, - 1)"
  using split_join_inverse [of 24 "- 1"] by (simp add: join_variant_def)


text \<open>
  Claim C4, as amended. \<^verbatim>\<open>join_variant\<close> is total over the integers; its result is the sum
  reduced modulo 32, which lies in 0..31 and is the sum itself when the sum lies in 0..31.
  In particular \<^verbatim>\<open>join_variant(24, 6)\<close> is 30, since 30 is below the modulus.
\<close>

theorem join_variant_exact:
  "join_variant dir anim = (dir + anim) mod 32
     \<and> 0 \<le> join_variant dir anim \<and> join_variant dir anim < 32
     \<and> (0 \<le> dir + anim \<and> dir + anim \<le> 31 \<longrightarrow> join_variant dir anim = dir + anim)"
  by (simp add: join_variant_def)

theorem join_variant_exact_witness:
  "(0::int) \<le> 24 + 6 \<and> (24::int) + 6 \<le> 31 \<and> join_variant 24 6 = 30"
  using join_variant_exact [of 24 6] by simp

text \<open>The claim as stated asks for 6 at \<open>(24, 6)\<close>; the code gives 30.\<close>

theorem join_variant_24_6_counterexample:
  "join_variant 24 6 = 30 \<and> join_variant 24 6 \<noteq> 6"
  by (simp add: join_variant_def)

section \<open>Error plumbing\<close>

lemma ebind_Inr [simp]: "ebind (Inr v) f = f v"
  by (simp add: ebind_def)

lemma ebind_Inl [simp]: "ebind (Inl e) f = Inl e"
  by (simp add: ebind_def)

section \<open>The adjacency query: properties\<close>

text \<open>
  Claim C6. Let the step and the layer of the coordinate exist, and let the layer be
  rectangular (every row as long as the first one). If \<open>x\<close> or \<open>y\<close> is negative, or \<open>y\<close> is
  not below the number of rows, or \<open>x\<close> is not below the row length, the query returns the
  boolean value of the flag \<^verbatim>\<open>tile_borders\<close> (false when it is unset). Otherwise it returns
  true exactly when the occupant's name is the origin tile's name, \<^verbatim>\<open>level\<close> or \<^verbatim>\<open>border\<close>.
\<close>

theorem is_adjacent_spec:
  assumes "py_get (grid ctx) d = Inr step" and "py_get step l = Inr layer"
    and "\<forall>row \<in> set layer. length row = length (hd layer)"
  shows "is_adjacent ctx (d, x, y, l) =
     Inr (if x < 0 \<or> y < 0 \<or> y \<ge> int (length layer) \<or> x \<ge> int (length (hd layer))
          then truthy (dict_get (flags ctx) ''tile_borders'')
          else name (layer ! nat y ! nat x) \<in> {name (tile ctx), ''level'', ''border''})"
proof (cases "x < 0 \<or> y < 0 \<or> y \<ge> int (length layer)")
  case True
  then show ?thesis using assms(1,2)
    by (auto simp: is_adjacent_def Let_def)
next
  case False
  then have y: "0 \<le> y" "nat y < length layer" and x: "0 \<le> x" by auto
  then have ne: "layer \<noteq> []" by auto
  have r0: "py_get layer 0 = Inr (hd layer)"
    using ne by (simp add: py_get_def hd_conv_nth)
  have ry: "py_get layer y = Inr (layer ! nat y)"
    using y by (simp add: py_get_def)
  have len: "length (layer ! nat y) = length (hd layer)"
    using assms(3) y by simp
  show ?thesis
  proof (cases "x \<ge> int (length (hd layer))")
    case True
    then show ?thesis using assms(1,2) False r0
      by (auto simp: is_adjacent_def Let_def)
  next
    case xin: False
    then have "py_get (layer ! nat y) x = Inr (layer ! nat y ! nat x)"
      using x len by (simp add: py_get_def)
    then show ?thesis using assms(1,2) False r0 ry xin
      by (auto simp: is_adjacent_def Let_def)
  qed
qed

theorem is_adjacent_spec_witness:
  "py_get (grid (ex_base Map.empty)) 0 = Inr (hd ex_grid)
     \<and> py_get (hd ex_grid) 0 = Inr (hd (hd ex_grid))
     \<and> is_adjacent (ex_base Map.empty) (0, 0, 1, 0) = Inr True
     \<and> is_adjacent (ex_base Map.empty) (0, 2, 1, 0) = Inr False
     \<and> is_adjacent (ex_base Map.empty) (0, 3, 0, 0) = Inr False
     \<and> is_adjacent (ex_base [''tile_borders'' \<mapsto> PBool True]) (0, 0, - 1, 0) = Inr True"
proof -
  have s: "py_get (grid (ex_base flgs)) 0 = Inr (hd ex_grid)" for flgs
    by (simp add: ex_base_def ex_grid_def py_get_def)
  have l: "py_get (hd ex_grid) 0 = Inr (hd (hd ex_grid))"
    by (simp add: ex_grid_def py_get_def)
  have r: "\<forall>row \<in> set (hd (hd ex_grid)). length row = length (hd (hd (hd ex_grid)))"
    by (simp add: ex_grid_def)
  show ?thesis
    using is_adjacent_spec [OF s l r, of Map.empty 0 1]
      is_adjacent_spec [OF s l r, of Map.empty 2 1]
      is_adjacent_spec [OF s l r, of Map.empty 3 0]
      is_adjacent_spec [OF s l r, of "[''tile_borders'' \<mapsto> PBool True]" 0 "- 1"]
      s [of Map.empty] l
    by (simp add: ex_grid_def ex_base_def ex_wall_def ex_baba_def ex_level_def dict_get_def)
qed

section \<open>The finalizer: properties\<close>

text \<open>
  Claim C9, as amended. Let the value under \<^verbatim>\<open>extra_names\<close> be absent, \<^verbatim>\<open>None\<close> or a list (so
  that the finalizer returns). For a custom tile whose style is still unset, the finalizer
  assigns the style \<^verbatim>\<open>letter\<close> when the name after its first five characters is exactly two
  characters long and the flag \<^verbatim>\<open>default_to_letters\<close> is set to a true value, and the style
  \<^verbatim>\<open>noun\<close> otherwise.
\<close>

theorem finalize_default_style:
  assumes "custom tle" and "custom_style tle = None"
    and "dict_get flgs ''extra_names'' = PNone \<or> (\<exists>xs. dict_get flgs ''extra_names'' = PList xs)"
  shows "\<exists>flgs'. finalize tle flgs =
           Inr (tle\<lparr>custom_style :=
                       Some (if length (drop 5 (ft_name tle)) = 2
                                \<and> truthy (dict_get flgs ''default_to_letters'')
                             then ''letter'' else ''noun'')\<rparr>,
                flgs')"
proof -
  have "\<exists>flgs'.
    (case dict_get flgs ''extra_names'' of
          PNone \<Rightarrow> Inr flgs
        | PList [] \<Rightarrow>
            Inr (flgs(''extra_names'' \<mapsto>
                   PList [PStr (str_repeat (meta_level tle) ''meta_''
                                @ filter (\<lambda>ch. ch \<noteq> CHR ''/'') (ft_name tle)
                                @ ''_'' @ str_of_int (variant_number tle))]))
        | PList (x # xs) \<Rightarrow> Inr (flgs(''extra_names'' \<mapsto> PList (PStr ''render'' # xs)))
        | v \<Rightarrow> if truthy v then Inl TypeError else Inl AttributeError) = Inr flgs'"
    using assms(3) by (auto split: list.splits)
  then show ?thesis using assms(1,2)
    by (auto simp: finalize_def)
qed

theorem finalize_default_style_witness:
  "finalize \<lparr>ft_name = ''text_ab'', variant_number = 0, meta_level = 0, custom = True,
             custom_style = None, attributes = Map.empty\<rparr>
            [''default_to_letters'' \<mapsto> PBool True]
     = Inr (\<lparr>ft_name = ''text_ab'', variant_number = 0, meta_level = 0, custom = True,
             custom_style = Some ''letter'', attributes = Map.empty\<rparr>,
            [''default_to_letters'' \<mapsto> PBool True])"
  using finalize_default_style
    [of "\<lparr>ft_name = ''text_ab'', variant_number = 0, meta_level = 0, custom = True,
             custom_style = None, attributes = Map.empty\<rparr>"
        "[''default_to_letters'' \<mapsto> PBool True]"]
  by (simp add: finalize_def dict_get_def)

text \<open>
  The claim as stated gives \<^verbatim>\<open>letter\<close> to every two-character custom name; without the flag
  \<^verbatim>\<open>default_to_letters\<close> the code gives \<^verbatim>\<open>noun\<close>.
\<close>

theorem finalize_two_characters_counterexample:
  "length (drop 5 ''text_ab'') = 2
     \<and> finalize \<lparr>ft_name = ''text_ab'', variant_number = 0, meta_level = 0, custom = True,
                 custom_style = None, attributes = Map.empty\<rparr> Map.empty
       = Inr (\<lparr>ft_name = ''text_ab'', variant_number = 0, meta_level = 0, custom = True,
               custom_style = Some ''noun'', attributes = Map.empty\<rparr>, Map.empty)"
  by (simp add: finalize_def dict_get_def)

section \<open>The raw numeric handler: properties\<close>

lemma digit_val_range: "digit_val ch = Some dg \<Longrightarrow> 0 \<le> dg \<and> dg \<le> 9"
  by (auto simp: digit_val_def split: if_splits)

lemma one_or_two_digits_int:
  assumes "one_or_two_digits s = Some gs"
  shows "\<exists>v. py_int s = Inr v \<and> 0 \<le> v \<and> v \<le> 99"
proof -
  from assms have len: "length s = 1 \<or> length s = 2"
    and dig: "\<forall>ch \<in> set s. digit_val ch \<noteq> None"
    by (auto simp: one_or_two_digits_def split: if_splits)
  from len show ?thesis
  proof
    assume "length s = 1"
    then obtain a where s: "s = [a]" by (cases s) auto
    with dig obtain da where "digit_val a = Some da" by auto
    with s digit_val_range [of a da] show ?thesis by (simp add: py_int_def)
  next
    assume "length s = 2"
    then obtain a b where s: "s = [a, b]"
      by (cases s; cases "tl s") auto
    with dig obtain da db where d: "digit_val a = Some da" "digit_val b = Some db" by auto
    with s digit_val_range [of a da] digit_val_range [of b db] show ?thesis
      by (simp add: py_int_def)
  qed
qed

text \<open>
  Claim C10. For a tile that has a static record and a token of one or two digits, the
  handler \<^verbatim>\<open>raw_variant\<close> always returns: the token is a number \<open>v\<close> in 0..99, and the result is
  the single field \<^verbatim>\<open>variant_number\<close>, which is -1 when the validation of the \<^verbatim>\<open>try\<close> block
  rejects \<open>v\<close> (47 or more on an auto-tiling category; otherwise a direction component that
  the category or the direction table does not allow, or an animation component that the
  sleep or animation categories and tables do not allow), and \<open>v\<close> itself when it does not.
  The validation raises \<^verbatim>\<open>BadTilingVariant\<close> in exactly those cases; the handler catches it.
\<close>

theorem raw_variant_never_raises:
  assumes "tile_data ctx = Some td" and "one_or_two_digits (variant ctx) = Some gs"
  shows "\<exists>v dir anim rejected.
           py_int (variant ctx) = Inr v \<and> 0 \<le> v \<and> v \<le> 99
         \<and> split_variant (Some v) = (dir, anim)
         \<and> rejected =
             (if tiling td \<in> set (AUTO_TILINGS c) then v \<ge> 47
              else (dir \<noteq> 0 \<and> (tiling td \<notin> set (DIRECTION_TILINGS c) \<or> dir \<notin> set (DIRECTIONS c)))
                 \<or> (anim \<noteq> 0 \<and>
                      (if anim \<in> snd ` set (SLEEP_VARIANTS c)
                       then tiling td \<notin> set (SLEEP_TILINGS c)
                       else tiling td \<notin> set (ANIMATION_TILINGS c)
                            \<or> anim \<notin> snd ` set (ANIMATION_VARIANTS c))))
         \<and> rejected =
             (raw_variant_try c ctx (tiling td) v =
                Inl (BadTilingVariant (TileName (name (tile ctx))) (variant ctx)
                       (PInt (tiling td))))
         \<and> raw_variant c ctx =
             Inr ([''variant_number'' \<mapsto> PInt (if rejected then - 1 else v)], extras ctx)"
proof -
  from one_or_two_digits_int [OF assms(2)] obtain v
    where v: "py_int (variant ctx) = Inr v" "0 \<le> v" "v \<le> 99" by blast
  obtain dir anim where sp: "split_variant (Some v) = (dir, anim)"
    by (cases "split_variant (Some v)")
  define rejected where "rejected =
             (if tiling td \<in> set (AUTO_TILINGS c) then v \<ge> 47
              else (dir \<noteq> 0 \<and> (tiling td \<notin> set (DIRECTION_TILINGS c) \<or> dir \<notin> set (DIRECTIONS c)))
                 \<or> (anim \<noteq> 0 \<and>
                      (if anim \<in> snd ` set (SLEEP_VARIANTS c)
                       then tiling td \<notin> set (SLEEP_TILINGS c)
                       else tiling td \<notin> set (ANIMATION_TILINGS c)
                            \<or> anim \<notin> snd ` set (ANIMATION_VARIANTS c))))"
  have try_bad: "rejected \<Longrightarrow> raw_variant_try c ctx (tiling td) v =
                Inl (BadTilingVariant (TileName (name (tile ctx))) (variant ctx)
                       (PInt (tiling td)))"
    using sp by (auto simp: rejected_def raw_variant_try_def Let_def split: if_splits)
  have try_ok: "\<not> rejected \<Longrightarrow> raw_variant_try c ctx (tiling td) v =
                Inr [''variant_number'' \<mapsto> PInt v]"
    using sp by (auto simp: rejected_def raw_variant_try_def Let_def split: if_splits)
  have iff: "rejected =
             (raw_variant_try c ctx (tiling td) v =
                Inl (BadTilingVariant (TileName (name (tile ctx))) (variant ctx)
                       (PInt (tiling td))))"
    using try_bad try_ok by (cases rejected) auto
  have res: "raw_variant c ctx =
             Inr ([''variant_number'' \<mapsto> PInt (if rejected then - 1 else v)], extras ctx)"
    using v(1) assms(1) try_bad try_ok
    by (cases rejected) (simp_all add: raw_variant_def)
  from v sp rejected_def iff res show ?thesis by blast
qed

theorem raw_variant_never_raises_witness:
  "tile_data (handler_context (ex_base Map.empty) Map.empty [] ''47'' Map.empty)
       = Some ex_wall_data
     \<and> one_or_two_digits ''47'' = Some []
     \<and> tiling ex_wall_data \<in> set (AUTO_TILINGS ex_constants)
     \<and> raw_variant ex_constants
         (handler_context (ex_base Map.empty) Map.empty [] ''47'' Map.empty)
       = Inr ([''variant_number'' \<mapsto> PInt (- 1)], Map.empty)"
proof -
  have td: "tile_data (handler_context (ex_base Map.empty) Map.empty [] ''47'' Map.empty)
       = Some ex_wall_data"
    by (simp add: tile_data_def handler_context_def ex_base_def ex_wall_def)
  have dg: "one_or_two_digits
              (variant (handler_context (ex_base Map.empty) Map.empty [] ''47'' Map.empty))
            = Some []"
    by (simp add: one_or_two_digits_def handler_context_def digit_val_def)
  have pi: "py_int (variant (handler_context (ex_base Map.empty) Map.empty [] ''47'' Map.empty))
            = Inr 47"
    by (simp add: py_int_def handler_context_def digit_val_def)
  have au: "tiling ex_wall_data \<in> set (AUTO_TILINGS ex_constants)"
    by (simp add: ex_wall_data_def ex_constants_def)
  from raw_variant_never_raises [OF td dg, of ex_constants] pi au
  have "raw_variant ex_constants
         (handler_context (ex_base Map.empty) Map.empty [] ''47'' Map.empty)
       = Inr ([''variant_number'' \<mapsto> PInt (- 1)],
              extras (handler_context (ex_base Map.empty) Map.empty [] ''47'' Map.empty))"
    by auto
  with td dg au show ?thesis
    by (simp add: handler_context_def)
qed

section \<open>Auto-tiling in the default factory: properties\<close>

text \<open>
  Claim C7. Let the tile have a static record of an auto-tiling category, let the four
  cardinal queries return \<open>r\<close>, \<open>u\<close>, \<open>l\<close>, \<open>dn\<close>, let each diagonal query return whenever the code
  evaluates it (both adjacent cardinals join), and let the 4-cardinal key (diagonals false)
  be in the table with value \<open>fb\<close>. Then the default factory sets \<^verbatim>\<open>variant_fallback\<close> to \<open>fb\<close>
  and looks \<^verbatim>\<open>variant_number\<close> up under the 8-tuple in which each diagonal bit is the
  conjunction of its two adjacent cardinals and the diagonal cell itself, with \<open>fb\<close> as the
  result when that key is absent.
\<close>

theorem default_auto_tiling:
  assumes nm: "name (tile ctx) \<noteq> ''-''"
    and td: "tile_data ctx = Some td" and au: "tiling td \<in> set (AUTO_TILINGS c)"
    and ix: "index ctx = (d, y, t, x)"
    and r: "is_adjacent ctx (d, x + 1, y, t) = Inr r"
    and u: "is_adjacent ctx (d, x, y - 1, t) = Inr u"
    and l: "is_adjacent ctx (d, x - 1, y, t) = Inr l"
    and dn: "is_adjacent ctx (d, x, y + 1, t) = Inr dn"
    and ru: "r \<and> u \<longrightarrow> is_adjacent ctx (d, x + 1, y - 1, t) = Inr ru"
    and ul: "u \<and> l \<longrightarrow> is_adjacent ctx (d, x - 1, y - 1, t) = Inr ul"
    and ld: "l \<and> dn \<longrightarrow> is_adjacent ctx (d, x - 1, y + 1, t) = Inr ld"
    and dr: "dn \<and> r \<longrightarrow> is_adjacent ctx (d, x + 1, y + 1, t) = Inr dr"
    and fb: "TILING_VARIANTS c (r, u, l, dn, False, False, False, False) = Some fb"
  shows "\<exists>flds. default_factory c ctx = Inr flds
           \<and> flds ''variant_fallback'' = Some (PInt fb)
           \<and> flds ''variant_number'' =
               Some (PInt (case TILING_VARIANTS c
                                  (r, u, l, dn, r \<and> u \<and> ru, u \<and> l \<and> ul, l \<and> dn \<and> ld, dn \<and> r \<and> dr) of
                             None \<Rightarrow> fb
                           | Some v \<Rightarrow> v))"
proof -
  have a1: "and_then r u (is_adjacent ctx (d, x + 1, y - 1, t)) = Inr (r \<and> u \<and> ru)"
    using ru by (auto simp: and_then_def)
  have a2: "and_then u l (is_adjacent ctx (d, x - 1, y - 1, t)) = Inr (u \<and> l \<and> ul)"
    using ul by (auto simp: and_then_def)
  have a3: "and_then l dn (is_adjacent ctx (d, x - 1, y + 1, t)) = Inr (l \<and> dn \<and> ld)"
    using ld by (auto simp: and_then_def)
  have a4: "and_then dn r (is_adjacent ctx (d, x + 1, y + 1, t)) = Inr (dn \<and> r \<and> dr)"
    using dr by (auto simp: and_then_def)
  have at: "auto_tiling c ctx =
      Inr (case TILING_VARIANTS c
                  (r, u, l, dn, r \<and> u \<and> ru, u \<and> l \<and> ul, l \<and> dn \<and> ld, dn \<and> r \<and> dr) of
             None \<Rightarrow> fb
           | Some v \<Rightarrow> v, fb)"
    by (simp add: auto_tiling_def ix r u l dn fb a1 a2 a3 a4 dict_lookup_def)
  show ?thesis
    using nm by (simp add: default_factory_def td au at Let_def)
qed

theorem default_auto_tiling_witness:
  "is_adjacent (ex_base Map.empty) (0, 1, 0, 0) = Inr True
     \<and> is_adjacent (ex_base Map.empty) (0, 0, - 1, 0) = Inr False
     \<and> is_adjacent (ex_base Map.empty) (0, - 1, 0, 0) = Inr False
     \<and> is_adjacent (ex_base Map.empty) (0, 0, 1, 0) = Inr True
     \<and> is_adjacent (ex_base Map.empty) (0, 1, 1, 0) = Inr True
     \<and> (\<exists>flds. default_factory ex_constants (ex_base Map.empty) = Inr flds
           \<and> flds ''variant_fallback'' = Some (PInt 9)
           \<and> flds ''variant_number'' = Some (PInt 20))"
proof -
  have nm: "name (tile (ex_base Map.empty)) \<noteq> ''-''"
    by (simp add: ex_base_def ex_wall_def)
  have td: "tile_data (ex_base Map.empty) = Some ex_wall_data"
    by (simp add: tile_data_def ex_base_def ex_wall_def)
  have au: "tiling ex_wall_data \<in> set (AUTO_TILINGS ex_constants)"
    by (simp add: ex_wall_data_def ex_constants_def)
  have ix: "index (ex_base Map.empty) = (0, 0, 0, 0)"
    by (simp add: ex_base_def)
  have r: "is_adjacent (ex_base Map.empty) (0, 0 + 1, 0, 0) = Inr True"
    by (simp add: is_adjacent_def ex_base_def ex_grid_def ex_wall_def py_get_def dict_get_def)
  have u: "is_adjacent (ex_base Map.empty) (0, 0, 0 - 1, 0) = Inr False"
    by (simp add: is_adjacent_def ex_base_def ex_grid_def py_get_def dict_get_def)
  have l: "is_adjacent (ex_base Map.empty) (0, 0 - 1, 0, 0) = Inr False"
    by (simp add: is_adjacent_def ex_base_def ex_grid_def py_get_def dict_get_def)
  have dn: "is_adjacent (ex_base Map.empty) (0, 0, 0 + 1, 0) = Inr True"
    by (simp add: is_adjacent_def ex_base_def ex_grid_def ex_wall_def ex_level_def
          py_get_def dict_get_def)
  have dr: "True \<and> True \<longrightarrow> is_adjacent (ex_base Map.empty) (0, 0 + 1, 0 + 1, 0) = Inr True"
    by (simp add: is_adjacent_def ex_base_def ex_grid_def ex_wall_def py_get_def dict_get_def)
  have no1: "True \<and> False \<longrightarrow> is_adjacent (ex_base Map.empty) (0, 0 + 1, 0 - 1, 0) = Inr False"
    by simp
  have no2: "False \<and> False \<longrightarrow> is_adjacent (ex_base Map.empty) (0, 0 - 1, 0 - 1, 0) = Inr False"
    by simp
  have no3: "False \<and> True \<longrightarrow> is_adjacent (ex_base Map.empty) (0, 0 - 1, 0 + 1, 0) = Inr False"
    by simp
  have fb: "TILING_VARIANTS ex_constants (True, False, False, True, False, False, False, False)
              = Some 9"
    by (simp add: ex_constants_def)
  from default_auto_tiling [OF nm td au ix r u l dn no1 no2 no3 dr fb]
  have "\<exists>flds. default_factory ex_constants (ex_base Map.empty) = Inr flds
           \<and> flds ''variant_fallback'' = Some (PInt 9)
           \<and> flds ''variant_number'' = Some (PInt 20)"
    by (simp add: ex_constants_def)
  with r u l dn dr show ?thesis by simp
qed

section \<open>The direction handler: properties\<close>

text \<open>
  Claim C8, as amended. Let a direction token be applied to a tile whose static record has
  a tiling category that does not support directions, with the flag
  \<^verbatim>\<open>ignore_bad_directions\<close> unset. The handler raises \<^verbatim>\<open>BadTilingVariant\<close> only when the flag
  \<^verbatim>\<open>disallow_custom_directions\<close> is set and the tile is not a text tile, and the error then
  names the tile and the token. In every other case it returns the single field
  \<^verbatim>\<open>custom_direction\<close>.
\<close>

theorem directions_unsupported_tiling:
  assumes "map_of (DIRECTION_VARIANTS c) (variant ctx) = Some dir"
    and "variant_arg (dict_get (ctx_fields ctx) ''variant_number'') = Inr vn"
    and "tile_data ctx = Some td" and "tiling td \<notin> set (DIRECTION_TILINGS c)"
    and "\<not> truthy (dict_get (flags ctx) ''ignore_bad_directions'')"
  shows "(truthy (dict_get (flags ctx) ''disallow_custom_directions'') \<and> \<not> is_text (tile ctx)
            \<longrightarrow> (\<exists>category. directions c ctx =
                    Inl (BadTilingVariant (TileObj (tile ctx)) (variant ctx) category)))
       \<and> (\<not> (truthy (dict_get (flags ctx) ''disallow_custom_directions'') \<and> \<not> is_text (tile ctx))
            \<longrightarrow> directions c ctx = Inr ([''custom_direction'' \<mapsto> PInt dir], extras ctx))"
  using assms
  by (cases "split_variant vn") (simp add: directions_def dict_lookup_def)

theorem directions_unsupported_tiling_witness:
  "map_of (DIRECTION_VARIANTS ex_constants) ''up'' = Some 8
     \<and> tiling ex_wall_data \<notin> set (DIRECTION_TILINGS ex_constants)
     \<and> (\<exists>category.
          directions ex_constants
            (handler_context (ex_base [''disallow_custom_directions'' \<mapsto> PBool True])
               [''variant_number'' \<mapsto> PInt 0] [] ''up'' Map.empty)
          = Inl (BadTilingVariant (TileObj ex_wall) ''up'' category))
     \<and> directions ex_constants
          (handler_context (ex_base [''disallow_custom_directions'' \<mapsto> PBool False])
             [''variant_number'' \<mapsto> PInt 0] [] ''up'' Map.empty)
        = Inr ([''custom_direction'' \<mapsto> PInt 8], Map.empty)"
proof -
  let ?ctx = "\<lambda>b. handler_context (ex_base [''disallow_custom_directions'' \<mapsto> PBool b])
            [''variant_number'' \<mapsto> PInt 0] [] ''up'' Map.empty"
  have a1: "map_of (DIRECTION_VARIANTS ex_constants) (variant (?ctx b)) = Some 8" for b
    by (simp add: ex_constants_def handler_context_def)
  have a2: "variant_arg (dict_get (ctx_fields (?ctx b)) ''variant_number'') = Inr (Some 0)" for b
    by (simp add: handler_context_def dict_get_def)
  have a3: "tile_data (?ctx b) = Some ex_wall_data" for b
    by (simp add: tile_data_def handler_context_def ex_base_def ex_wall_def)
  have a4: "tiling ex_wall_data \<notin> set (DIRECTION_TILINGS ex_constants)"
    by (simp add: ex_wall_data_def ex_constants_def)
  have a5: "\<not> truthy (dict_get (flags (?ctx b)) ''ignore_bad_directions'')" for b
    by (simp add: handler_context_def ex_base_def dict_get_def)
  from directions_unsupported_tiling [OF a1 a2 a3 a4 a5, of True]
    directions_unsupported_tiling [OF a1 a2 a3 a4 a5, of False] a1 [of True] a4
  show ?thesis
    by (simp add: handler_context_def ex_base_def ex_wall_def dict_get_def)
qed

text \<open>
  The claim as stated asks for \<^verbatim>\<open>BadTilingVariant\<close> when no flag is set; the code returns the
  field \<^verbatim>\<open>custom_direction\<close> there.
\<close>

theorem directions_no_flags_counterexample:
  "tiling ex_wall_data \<notin> set (DIRECTION_TILINGS ex_constants)
     \<and> directions ex_constants
         (handler_context (ex_base Map.empty) [''variant_number'' \<mapsto> PInt 0] [] ''up'' Map.empty)
       = Inr ([''custom_direction'' \<mapsto> PInt 8], Map.empty)"
  by (simp add: directions_def dict_lookup_def handler_context_def ex_base_def ex_wall_def
        ex_wall_data_def ex_constants_def tile_data_def dict_get_def split_variant_def)

section \<open>The resolution loops: properties\<close>

lemma apply_handlers_no_match:
  "\<forall>h \<in> set hs. match h v = None \<Longrightarrow>
     apply_handlers hs base v flds xtr failed = Inr (flds, xtr, failed)"
  by (induction hs) simp_all


text \<open>Handlers whose pattern does not match the token play no part in the inner loop.\<close>

lemma apply_handlers_filter:
  "apply_handlers (filter (\<lambda>h. match h v \<noteq> None) hs) base v flds xtr failed =
     apply_handlers hs base v flds xtr failed"
proof (induction hs arbitrary: flds xtr failed)
  case Nil
  show ?case by simp
next
  case (Cons h hs)
  show ?case
  proof (cases "match h v")
    case None
    then show ?thesis using Cons.IH by simp
  next
    case (Some grps)
    show ?thesis
    proof (cases "handle h (handler_context base flds grps v xtr)")
      case (Inl e)
      with Some show ?thesis by simp
    next
      case (Inr res)
      obtain upd xtr' where "res = (upd, xtr')" by (cases res)
      with Some Inr show ?thesis using Cons.IH by simp
    qed
  qed
qed

text \<open>When exactly one registered handler matches, its result alone is merged.\<close>

lemma apply_handlers_single:
  assumes "filter (\<lambda>h. match h v \<noteq> None) (handlers vh) = [h]"
  shows "\<exists>grps. match h v = Some grps \<and>
           apply_handlers (rev (handlers vh)) base v flds xtr failed =
             (case handle h (handler_context base flds grps v xtr) of
                Inl e \<Rightarrow> Inl e
              | Inr (upd, xtr') \<Rightarrow> Inr (flds ++ upd, xtr', False))"
proof -
  have "h \<in> set (filter (\<lambda>h. match h v \<noteq> None) (handlers vh))"
    using assms by simp
  then obtain grps where g: "match h v = Some grps" by auto
  have "apply_handlers (rev (handlers vh)) base v flds xtr failed =
          apply_handlers (filter (\<lambda>h. match h v \<noteq> None) (rev (handlers vh))) base v flds xtr failed"
    by (simp only: apply_handlers_filter)
  also have "filter (\<lambda>h. match h v \<noteq> None) (rev (handlers vh)) = [h]"
    using assms by (simp add: rev_filter [symmetric])
  finally show ?thesis using g
    by (auto split: sum.splits)
qed

lemma apply_variants_append:
  "apply_variants vh base (vs1 @ vs2) flds xtr =
     (case apply_variants vh base vs1 flds xtr of
        Inl e \<Rightarrow> Inl e
      | Inr (flds', xtr') \<Rightarrow> apply_variants vh base vs2 flds' xtr')"
proof (induction vs1 arbitrary: flds xtr)
  case Nil
  show ?case by simp
next
  case (Cons w ws)
  show ?case
  proof (cases "apply_handlers (rev (handlers vh)) base w flds xtr True")
    case (Inl e)
    then show ?thesis by simp
  next
    case (Inr res)
    obtain f x b where "res = (f, x, b)" by (cases res)
    with Inr show ?thesis using Cons.IH by simp
  qed
qed

lemma apply_variants_unknown:
  assumes "\<forall>h \<in> set (handlers vh). match h v = None" and "v \<in> set vs"
  shows "\<exists>e. apply_variants vh base vs flds xtr = Inl e"
  using assms(2)
proof (induction vs arbitrary: flds xtr)
  case Nil
  then show ?case by simp
next
  case (Cons w ws)
  show ?case
  proof (cases "w = v")
    case True
    then show ?thesis using assms(1)
      by (simp add: apply_handlers_no_match)
  next
    case False
    with Cons.prems have "v \<in> set ws" by simp
    from Cons.IH [OF this] show ?thesis
      by (auto split: sum.splits)
  qed
qed

lemma enum_map_error:
  assumes "x \<in> set xs" and "\<And>i s. \<exists>e. f i x s = Inl e"
  shows "\<exists>e. enum_map f i xs s = Inl e"
  using assms(1)
proof (induction xs arbitrary: i s)
  case Nil
  then show ?case by simp
next
  case (Cons y ys)
  show ?case
  proof (cases "f i y s")
    case (Inl e)
    then show ?thesis by simp
  next
    case (Inr res)
    obtain z s' where res: "res = (z, s')" by (cases res)
    from Inr assms(2) [of i s] have "y \<noteq> x" by auto
    with Cons.prems have "x \<in> set ys" by simp
    from Cons.IH [OF this, of "i + 1" s'] obtain e
      where "enum_map f (i + 1) ys s' = Inl e" by blast
    with Inr res show ?thesis by simp
  qed
qed

lemma handle_tile_unknown:
  assumes "\<forall>h \<in> set (handlers vh). match h v = None" and "v \<in> set (variants tle)"
  shows "\<exists>e. handle_tile vh ftf tle grd idx cache flgs = Inl e"
proof (cases "default_fields vh \<lparr>tile = tle, grid = grd, index = idx, flags = flgs,
                         tile_data_cache = cache\<rparr>")
  case (Inl e)
  then show ?thesis by (simp add: handle_tile_def resolve_fields_def)
next
  case (Inr flds)
  from apply_variants_unknown [OF assms] obtain e where
    "apply_variants vh \<lparr>tile = tle, grid = grd, index = idx, flags = flgs,
                         tile_data_cache = cache\<rparr> (variants tle) flds Map.empty = Inl e"
    by blast
  with Inr show ?thesis by (simp add: handle_tile_def resolve_fields_def)
qed

lemma handle_grid_unknown:
  assumes "\<forall>h \<in> set (handlers vh). match h v = None"
    and "tle \<in> set (concat (concat (concat grd)))" and "v \<in> set (variants tle)"
  shows "\<exists>e. handle_grid vh ftf db grd flgs = Inl e"
proof -
  from assms(2) obtain step row stack where mem:
    "step \<in> set grd" "row \<in> set step" "stack \<in> set row" "tle \<in> set stack"
    by auto
  note ht = handle_tile_unknown [OF assms(1,3)]
  have l4: "\<exists>e. enum_map (\<lambda>z tle. handle_tile vh ftf tle grd (d, x, y, z) cache) i stack s = Inl e"
    for d x y cache i s
    by (rule enum_map_error [OF mem(4)]) (rule ht)
  have l3: "\<exists>e. enum_map (\<lambda>x stack.
               enum_map (\<lambda>z tle. handle_tile vh ftf tle grd (d, x, y, z) cache) 0 stack)
             i row s = Inl e"
    for d y cache i s
    by (rule enum_map_error [OF mem(3)]) (rule l4)
  have l2: "\<exists>e. enum_map (\<lambda>y row. enum_map (\<lambda>x stack.
               enum_map (\<lambda>z tle. handle_tile vh ftf tle grd (d, x, y, z) cache) 0 stack)
             0 row) i step s = Inl e"
    for d cache i s
    by (rule enum_map_error [OF mem(2)]) (rule l3)
  show ?thesis
    unfolding handle_grid_def Let_def
    by (rule enum_map_error [OF mem(1)]) (rule l2)
qed

text \<open>
  Claim C5, as amended. If a modifier token of a tile of the grid matches no registered
  handler's pattern, then whole-grid resolution returns an error and no descriptor for any
  tile, and per-tile resolution of that tile returns an error, whatever the grid, index,
  cache and flags. That error is \<^verbatim>\<open>UnknownVariant\<close> carrying the tile and the token when the
  default factory and the handlers of the tokens before it have succeeded (otherwise the
  earlier error is the one raised).
\<close>

theorem unknown_variant_aborts:
  assumes nm: "\<forall>h \<in> set (handlers vh). match h v = None"
    and mem: "tle \<in> set (concat (concat (concat grd)))"
    and vs: "variants tle = pre @ v # post"
  shows "(\<exists>e. handle_grid vh ftf db grd flgs = Inl e)
       \<and> (\<exists>e. handle_tile vh ftf tle grd' idx cache flgs' = Inl e)
       \<and> (default_fields vh \<lparr>tile = tle, grid = grd', index = idx, flags = flgs',
                              tile_data_cache = cache\<rparr> = Inr flds0
            \<and> apply_variants vh \<lparr>tile = tle, grid = grd', index = idx, flags = flgs',
                                  tile_data_cache = cache\<rparr> pre flds0 Map.empty = Inr (flds1, xtr1)
          \<longrightarrow> handle_tile vh ftf tle grd' idx cache flgs' = Inl (UnknownVariant tle v))"
proof -
  have v: "v \<in> set (variants tle)" using vs by simp
  have g: "\<exists>e. handle_grid vh ftf db grd flgs = Inl e"
    by (rule handle_grid_unknown [OF nm mem v])
  have t: "\<exists>e. handle_tile vh ftf tle grd' idx cache flgs' = Inl e"
    by (rule handle_tile_unknown [OF nm v])
  have u: "handle_tile vh ftf tle grd' idx cache flgs' = Inl (UnknownVariant tle v)"
    if "default_fields vh \<lparr>tile = tle, grid = grd', index = idx, flags = flgs',
                              tile_data_cache = cache\<rparr> = Inr flds0"
      and "apply_variants vh \<lparr>tile = tle, grid = grd', index = idx, flags = flgs',
                                  tile_data_cache = cache\<rparr> pre flds0 Map.empty = Inr (flds1, xtr1)"
    using that nm
    by (simp add: handle_tile_def resolve_fields_def vs apply_variants_append
          apply_handlers_no_match)
  from g t u show ?thesis by blast
qed

lemma handlers_setup:
  "handlers (setup_handlers c) =
     [directions_handler c, raw_variant_handler c, blank_handler, flipx_handler]"
  by (simp add: setup_handlers_def handler_def)

theorem unknown_variant_aborts_witness:
  "list_all (\<lambda>h. match h ''zzqq'' = None) (handlers (setup_handlers ex_constants))
     \<and> handle_tile (setup_handlers ex_constants) ex_full
         (ex_tile ''text_zz'' [''blank'', ''zzqq''] True)
         [[[[ex_tile ''text_zz'' [''blank'', ''zzqq''] True]]]] (0, 0, 0, 0) Map.empty Map.empty
       = Inl (UnknownVariant (ex_tile ''text_zz'' [''blank'', ''zzqq''] True) ''zzqq'')
     \<and> (\<exists>e. handle_grid (setup_handlers ex_constants) ex_full (\<lambda>names version. [])
               [[[[ex_tile ''text_zz'' [''blank'', ''zzqq''] True]]]] Map.empty = Inl e)"
proof -
  let ?vh = "setup_handlers ex_constants"
  let ?t = "ex_tile ''text_zz'' [''blank'', ''zzqq''] True"
  let ?ctx = "\<lparr>tile = ?t, grid = [[[[?t]]]], index = (0, 0, 0, 0), flags = Map.empty,
               tile_data_cache = Map.empty\<rparr>"
  note hs = handlers_setup [of ex_constants]
  have nm: "\<forall>h \<in> set (handlers ?vh). match h ''zzqq'' = None"
    unfolding hs
    by (simp add: match_def directions_handler_def raw_variant_handler_def
          blank_handler_def flipx_handler_def alternatives_def one_or_two_digits_def
          ex_constants_def)
  have mem: "?t \<in> set (concat (concat (concat [[[[?t]]]])))" by simp
  have vs: "variants ?t = [''blank''] @ ''zzqq'' # []" by (simp add: ex_tile_def)
  have df: "default_fields ?vh ?ctx =
      Inr [''custom'' \<mapsto> PBool True, ''variant_number'' \<mapsto> PInt 0,
           ''color_index'' \<mapsto> color_value (0, 3), ''meta_level'' \<mapsto> PInt 0]"
    by (simp add: setup_handlers_def handler_def default_factory_def tile_data_def ex_tile_def)
  have pre: "\<exists>f x. apply_variants ?vh ?ctx [''blank'']
      [''custom'' \<mapsto> PBool True, ''variant_number'' \<mapsto> PInt 0,
       ''color_index'' \<mapsto> color_value (0, 3), ''meta_level'' \<mapsto> PInt 0] Map.empty = Inr (f, x)"
    unfolding apply_variants.simps hs
    by (simp add: match_def handle_def directions_handler_def raw_variant_handler_def
          blank_handler_def flipx_handler_def alternatives_def one_or_two_digits_def
          ex_constants_def blank_def)
  then obtain f x where pre': "apply_variants ?vh ?ctx [''blank'']
      [''custom'' \<mapsto> PBool True, ''variant_number'' \<mapsto> PInt 0,
       ''color_index'' \<mapsto> color_value (0, 3), ''meta_level'' \<mapsto> PInt 0] Map.empty = Inr (f, x)"
    by blast
  from unknown_variant_aborts [OF nm mem vs, of ex_full "\<lambda>names version. []" Map.empty
      "[[[[?t]]]]" "(0, 0, 0, 0)" Map.empty Map.empty _ f x] df pre' nm
  show ?thesis by (simp add: list_all_iff)
qed

text \<open>
  The claim as stated promises \<^verbatim>\<open>UnknownVariant\<close> for every such token; a tile without a
  static record that is not a text tile fails in the default factory first.
\<close>

theorem unknown_variant_counterexample:
  "list_all (\<lambda>h. match h ''zzqq'' = None) (handlers (setup_handlers ex_constants))
     \<and> handle_tile (setup_handlers ex_constants) ex_full
         (ex_tile ''ghost'' [''zzqq''] False)
         [[[[ex_tile ''ghost'' [''zzqq''] False]]]] (0, 0, 0, 0) Map.empty Map.empty
       = Inl (TileNotFound (ex_tile ''ghost'' [''zzqq''] False))
     \<and> TileNotFound (ex_tile ''ghost'' [''zzqq''] False)
         \<noteq> UnknownVariant (ex_tile ''ghost'' [''zzqq''] False) ''zzqq''"
  by (simp add: setup_handlers_def handler_def match_def directions_handler_def
        raw_variant_handler_def blank_handler_def flipx_handler_def alternatives_def
        one_or_two_digits_def ex_constants_def handle_tile_def resolve_fields_def
        default_factory_def tile_data_def ex_tile_def)






lemma handlers_setup_filters:
  "handlers (setup_filters c) =
     [directions_handler c, raw_variant_handler c, blank_handler, flipx_handler,
      locksat_handler, colselect_slice_handler, colselect_list_handler]"
  by (simp add: setup_filters_def handlers_setup handler_def)

lemma apply_variants_single:
  assumes "filter (\<lambda>h. match h t \<noteq> None) (handlers vh) = [h]"
    and "match h t = Some g"
    and "handle h (handler_context base flds g t xtr) = Inr (upd, xtr')"
  shows "apply_handlers (rev (handlers vh)) base t flds xtr True = Inr (flds ++ upd, xtr', False)"
proof -
  from apply_handlers_single [OF assms(1), of base flds xtr True] obtain grps where
    "match h t = Some grps"
    "apply_handlers (rev (handlers vh)) base t flds xtr True =
       (case handle h (handler_context base flds grps t xtr) of
          Inl e \<Rightarrow> Inl e
        | Inr (upd, xtr') \<Rightarrow> Inr (flds ++ upd, xtr', False))"
    by blast
  with assms(2,3) show ?thesis by simp
qed

lemma merge_add:
  "ctx_fields ctx = flds \<Longrightarrow>
     flds ++ add ctx dst var =
       flds(''filters'' \<mapsto>
         PList ((case dict_get flds ''filters'' of PList f \<Rightarrow> f | _ \<Rightarrow> [])
                @ [PList [PStr dst, var]]))"
  by (cases "dict_get flds ''filters''") (simp_all add: add_def)

text \<open>
  Claim C2, as amended. During per-tile resolution, merging the result of the handler that
  matches a token overwrites the keys that the result holds and keeps the other keys of
  the accumulator. The key \<^verbatim>\<open>filters\<close> appends: a handler that returns \<^verbatim>\<open>add(ctx, dst, var)\<close>
  starts a single-entry list when the accumulator holds no list there, and extends the list
  by the entry otherwise. Applying two such tokens in sequence, each matched by exactly
  one registered handler, extends the filters list by two entries in application order,
  never by one overwritten entry.
\<close>

theorem filters_accumulate:
  assumes one: "filter (\<lambda>h. match h t \<noteq> None) (handlers vh) = [h]"
    and g: "match h t = Some g"
    and r: "handle h (handler_context base flds g t xtr) = Inr (upd, xtr')"
    and one1: "filter (\<lambda>h. match h t1 \<noteq> None) (handlers vh) = [h1]"
    and g1: "match h1 t1 = Some g1"
    and r1: "handle h1 (handler_context base flds g1 t1 xtr) =
               Inr (add (handler_context base flds g1 t1 xtr) d1 a1, xtr)"
    and one2: "filter (\<lambda>h. match h t2 \<noteq> None) (handlers vh) = [h2]"
    and g2: "match h2 t2 = Some g2"
    and r2: "handle h2
               (handler_context base
                  (flds(''filters'' \<mapsto>
                     PList ((case dict_get flds ''filters'' of PList f \<Rightarrow> f | _ \<Rightarrow> [])
                            @ [PList [PStr d1, a1]])))
                  g2 t2 xtr) =
               Inr (add (handler_context base
                           (flds(''filters'' \<mapsto>
                              PList ((case dict_get flds ''filters'' of PList f \<Rightarrow> f | _ \<Rightarrow> [])
                                     @ [PList [PStr d1, a1]])))
                           g2 t2 xtr) d2 a2, xtr)"
  shows "apply_variants vh base [t] flds xtr = Inr (flds ++ upd, xtr')
       \<and> (\<forall>k. (flds ++ upd) k = (case upd k of None \<Rightarrow> flds k | Some w \<Rightarrow> Some w))
       \<and> apply_variants vh base [t1] flds xtr =
           Inr (flds(''filters'' \<mapsto>
                  PList ((case dict_get flds ''filters'' of PList f \<Rightarrow> f | _ \<Rightarrow> [])
                         @ [PList [PStr d1, a1]])),
                xtr)
       \<and> apply_variants vh base [t1, t2] flds xtr =
           Inr (flds(''filters'' \<mapsto>
                  PList ((case dict_get flds ''filters'' of PList f \<Rightarrow> f | _ \<Rightarrow> [])
                         @ [PList [PStr d1, a1], PList [PStr d2, a2]])),
                xtr)"
proof -
  let ?old = "case dict_get flds ''filters'' of PList f \<Rightarrow> f | _ \<Rightarrow> []"
  let ?flds1 = "flds(''filters'' \<mapsto> PList (?old @ [PList [PStr d1, a1]]))"
  have a: "apply_variants vh base [t] flds xtr = Inr (flds ++ upd, xtr')"
    by (simp add: apply_variants_single [OF one g r])
  have b: "\<forall>k. (flds ++ upd) k = (case upd k of None \<Rightarrow> flds k | Some w \<Rightarrow> Some w)"
    by (simp add: map_add_def)
  have m1: "flds ++ add (handler_context base flds g1 t1 xtr) d1 a1 = ?flds1"
    by (rule merge_add) (simp add: handler_context_def)
  have s1: "apply_handlers (rev (handlers vh)) base t1 flds xtr True = Inr (?flds1, xtr, False)"
    using apply_variants_single [OF one1 g1 r1] m1 by simp
  have m2: "?flds1 ++ add (handler_context base ?flds1 g2 t2 xtr) d2 a2 =
      flds(''filters'' \<mapsto> PList (?old @ [PList [PStr d1, a1], PList [PStr d2, a2]]))"
  proof -
    have cf: "ctx_fields (handler_context base ?flds1 g2 t2 xtr) = ?flds1"
      by (simp add: handler_context_def)
    have dg: "dict_get ?flds1 ''filters'' = PList (?old @ [PList [PStr d1, a1]])"
      by (simp add: dict_get_def)
    show ?thesis
      by (simp only: merge_add [OF cf] dg) simp
  qed
  have s2: "apply_handlers (rev (handlers vh)) base t2 ?flds1 xtr True =
      Inr (flds(''filters'' \<mapsto> PList (?old @ [PList [PStr d1, a1], PList [PStr d2, a2]])),
           xtr, False)"
    using apply_variants_single [OF one2 g2 r2] m2 by simp
  have c: "apply_variants vh base [t1] flds xtr = Inr (?flds1, xtr)"
    by (simp add: s1)
  have d: "apply_variants vh base [t1, t2] flds xtr =
      Inr (flds(''filters'' \<mapsto> PList (?old @ [PList [PStr d1, a1], PList [PStr d2, a2]])), xtr)"
    by (simp add: s1 s2)
  from a b c d show ?thesis by blast
qed

lemma ex_matches:
  "filter (\<lambda>h. match h ''up'' \<noteq> None) (handlers (setup_filters ex_constants))
     = [directions_handler ex_constants]"
  "filter (\<lambda>h. match h ''locksat10'' \<noteq> None) (handlers (setup_filters ex_constants))
     = [locksat_handler]"
  "filter (\<lambda>h. match h ''locksat20'' \<noteq> None) (handlers (setup_filters ex_constants))
     = [locksat_handler]"
  "match (directions_handler ex_constants) ''up'' = Some []"
  "match locksat_handler ''locksat10'' = Some [Some ''10'']"
  "match locksat_handler ''locksat20'' = Some [Some ''20'']"
  unfolding handlers_setup_filters
  by (simp_all add: match_def directions_handler_def raw_variant_handler_def
        blank_handler_def flipx_handler_def locksat_handler_def colselect_slice_handler_def
        colselect_list_handler_def alternatives_def one_or_two_digits_def ex_constants_def
        digits_group_def all_digits_def digit_val_def colselect_slice_body_def
        colselect_list_body_def signed_run_def signed_int_text_def)

theorem filters_accumulate_witness:
  "filter (\<lambda>h. match h ''locksat10'' \<noteq> None) (handlers (setup_filters ex_constants))
       = [locksat_handler]
     \<and> filter (\<lambda>h. match h ''locksat20'' \<noteq> None) (handlers (setup_filters ex_constants))
       = [locksat_handler]
     \<and> apply_variants (setup_filters ex_constants) (ex_base Map.empty) [''up'']
         [''variant_number'' \<mapsto> PInt 0] Map.empty
       = Inr ([''variant_number'' \<mapsto> PInt 0, ''custom_direction'' \<mapsto> PInt 8], Map.empty)
     \<and> apply_variants (setup_filters ex_constants) (ex_base Map.empty)
         [''locksat10'', ''locksat20''] [''variant_number'' \<mapsto> PInt 0] Map.empty
       = Inr ([''variant_number'' \<mapsto> PInt 0,
               ''filters'' \<mapsto> PList [PList [PStr ''locksat'', PInt 10],
                                       PList [PStr ''locksat'', PInt 20]]],
              Map.empty)"
proof -
  let ?flds = "[''variant_number'' \<mapsto> PInt 0]"
  let ?base = "ex_base Map.empty"
  have r: "handle (directions_handler ex_constants)
             (handler_context ?base ?flds [] ''up'' Map.empty)
           = Inr ([''custom_direction'' \<mapsto> PInt 8], Map.empty)"
    by (simp add: handle_def directions_handler_def directions_def dict_lookup_def
          handler_context_def ex_base_def ex_wall_def ex_wall_data_def ex_constants_def
          tile_data_def dict_get_def split_variant_def)
  have r1: "handle locksat_handler (handler_context ?base fl [Some ''10''] ''locksat10'' Map.empty)
           = Inr (add (handler_context ?base fl [Some ''10''] ''locksat10'' Map.empty)
                    ''locksat'' (PInt 10), Map.empty)" for fl
    by (simp add: handle_def locksat_handler_def locksat_def handler_context_def py_get_def
          py_signed_int_def py_int_def digit_val_def)
  have r2: "handle locksat_handler (handler_context ?base fl [Some ''20''] ''locksat20'' Map.empty)
           = Inr (add (handler_context ?base fl [Some ''20''] ''locksat20'' Map.empty)
                    ''locksat'' (PInt 20), Map.empty)" for fl
    by (simp add: handle_def locksat_handler_def locksat_def handler_context_def py_get_def
          py_signed_int_def py_int_def digit_val_def)
  from filters_accumulate [OF ex_matches(1) ex_matches(4) r ex_matches(2) ex_matches(5) r1
      ex_matches(3) ex_matches(6) r2] ex_matches(2,3)
  show ?thesis by (simp add: dict_get_def map_add_def fun_eq_iff)
qed

text \<open>
  The claim as stated promises two entries for any two filter tokens. The tokens \<^verbatim>\<open>c1\<close> and
  \<^verbatim>\<open>c2\<close> are each matched by both handlers named \<^verbatim>\<open>colselect\<close>, and both results are merged:
  the two tokens leave four entries.
\<close>

theorem two_tokens_four_entries_counterexample:
  "match colselect_slice_handler ''c1'' = Some [Some ''1'', None, None]
     \<and> match colselect_list_handler ''c1'' = Some [Some ''1'']
     \<and> apply_variants (setup_filters ex_constants) (ex_base Map.empty) [''c1'', ''c2'']
         Map.empty Map.empty
       = Inr ([''filters'' \<mapsto>
                 PList [PList [PStr ''colselect'', PList [PInt 1]],
                        PList [PStr ''colselect'', PSlice (PInt 1) PNone PNone],
                        PList [PStr ''colselect'', PList [PInt 2]],
                        PList [PStr ''colselect'', PSlice (PInt 2) PNone PNone]]],
              Map.empty)"
  unfolding apply_variants.simps handlers_setup_filters
  by (simp add: match_def handle_def directions_handler_def raw_variant_handler_def
        blank_handler_def flipx_handler_def locksat_handler_def colselect_slice_handler_def
        colselect_list_handler_def alternatives_def one_or_two_digits_def ex_constants_def
        digits_group_def all_digits_def digit_val_def colselect_slice_body_def
        colselect_list_body_def signed_run_def signed_int_text_def colselect_slice_def
        colselect_list_def handler_context_def py_get_def py_signed_int_def py_int_def
        add_def dict_get_def)

end
